theory Spec2Isabelle
  imports Complex_Main "HOL-Library.Sublist"
begin

section \<open>Texts\<close>

text \<open>
  A text that is searched or parsed is the list of its characters, each by its Unicode
  number; \<open>ascii\<close> writes one from a literal.
\<close>

type_synonym ustring = "nat list"

definition ascii :: "string \<Rightarrow> ustring" where
  "ascii s = map of_char s"

section \<open>The listed entity and the tenant data\<close>

text \<open>
  Modelled from the spec: the database schema is not among the sources, so the row type
  follows the spec's data model and the fields \<open>findDistribution\<close> names. A
  \<open>DistributionStatement\<close> row has its identifier, its tenant owner (\<open>userId\<close>, the nullable
  \<open>teamId\<close>, and the e-mail of the owning user, which the filter reaches through the \<open>user\<close>
  relation), its creation instant in milliseconds since the epoch, the seven nullable text
  columns, and the \<open>platformId\<close> / \<open>territoryId\<close> foreign keys of its association rows.
\<close>

record DistributionStatement =
  ds_id :: int
  ds_userId :: int
  ds_teamId :: "int option"
  ds_userEmail :: string
  createdAt :: int
  proyecto :: "ustring option"
  isrc :: "ustring option"
  marketingOwner :: "ustring option"
  nombreDistribucion :: "ustring option"
  numeroDeCatalogo :: "ustring option"
  tituloCatalogo :: "ustring option"
  tipoDeIngreso :: "ustring option"
  distributionStatementMusicPlatforms :: "int list"
  distributionStatementTerritories :: "int list"

text \<open>
  Modelled from the spec: the team of the schema, with its id, its optional shared inbox
  (\<open>teamEmail.email\<close>) and its members as pairs of user id and role.
\<close>

record Team =
  team_id :: int
  teamEmail :: "string option"
  members :: "(int \<times> string) list"

section \<open>The filter objects handed to the storage layer\<close>

datatype StringColumn =
  Proyecto | Isrc | MarketingOwner | NombreDistribucion | NumeroDeCatalogo
  | TituloCatalogo | TipoDeIngreso

text \<open>
  A \<open>WhereInput\<close> is a filter object: the list of its keys. The keys are the ones
  \<open>findDistribution\<close> writes, and \<open>Raw\<close> for any other condition a caller-supplied
  \<open>where\<close> may carry.
\<close>

datatype WhereInput = WhereInput "WhereKey list"
and WhereKey =
    AND "WhereInput list"
  | OR "WhereInput list"
  | ContainsInsensitive StringColumn "ustring option"
  | UserIdEquals int
  | TeamIdEquals "int option"
  | UserEmailEquals string
  | MusicPlatformsSomeIn "int list"
  | TerritoriesSomeIn "int list"
  | CreatedAtGte int
  | Raw "DistributionStatement \<Rightarrow> bool"

subsection \<open>What the storage layer makes of a filter\<close>

text \<open>
  The storage engine is a collaborator outside the repository; this is its reading of the
  filters \<open>findDistribution\<close> builds, on PostgreSQL, the SQL database on which the storage
  layer offers the mode \<open>insensitive\<close>.

  \<open>contains\<close> with mode \<open>insensitive\<close> becomes \<open>column ILIKE '%' || query || '%'\<close>: the
  query is placed in the pattern as it is, so a \<open>%\<close> in it (character 37) stands for any run
  of characters, a \<open>_\<close> (95) for any one character, and a backslash (92) makes the next
  character of the pattern literal. A pattern cannot end in a lone backslash here, since
  every pattern built ends in \<open>%\<close>.
\<close>

fun likeMatch :: "ustring \<Rightarrow> ustring \<Rightarrow> bool" where
  "likeMatch [] t = (t = [])"
| "likeMatch (p # ps) [] = (p = 37 \<and> likeMatch ps [])"
| "likeMatch (p # ps) (c # cs) =
     (if p = 37 then likeMatch ps (c # cs) \<or> likeMatch (p # ps) cs
      else if p = 95 then likeMatch ps cs
      else if p = 92 then (case ps of [] \<Rightarrow> False | e # ps' \<Rightarrow> e = c \<and> likeMatch ps' cs)
      else p = c \<and> likeMatch ps cs)"

text \<open>
  \<open>ILIKE\<close> folds the pattern and the value with the \<open>lower\<close> of the database's locale,
  a parameter \<open>lw\<close> here, and then matches as \<open>LIKE\<close>. A null field matches nothing.
\<close>

definition containsInsensitive :: "(ustring \<Rightarrow> ustring) \<Rightarrow> ustring option \<Rightarrow> ustring \<Rightarrow> bool" where
  "containsInsensitive lw field q =
     (case field of
        None \<Rightarrow> False
      | Some v \<Rightarrow> likeMatch (lw (37 # q @ [37])) (lw v))"

fun column :: "StringColumn \<Rightarrow> DistributionStatement \<Rightarrow> ustring option" where
  "column Proyecto r = proyecto r"
| "column Isrc r = isrc r"
| "column MarketingOwner r = marketingOwner r"
| "column NombreDistribucion r = nombreDistribucion r"
| "column NumeroDeCatalogo r = numeroDeCatalogo r"
| "column TituloCatalogo r = tituloCatalogo r"
| "column TipoDeIngreso r = tipoDeIngreso r"

text \<open>
  An object holds when all its keys hold; \<open>AND\<close> needs every member, \<open>OR\<close> at least one;
  a relation filter \<open>some: {fk: {in: ids}}\<close> needs one association row whose foreign key is
  among \<open>ids\<close>. What the engine makes of a \<open>contains\<close> that is \<open>undefined\<close> is not fixed by
  the code: here such a filter carries no condition, and every statement below on the search
  is about a query that is given.
\<close>

fun matches :: "(ustring \<Rightarrow> ustring) \<Rightarrow> DistributionStatement \<Rightarrow> WhereInput \<Rightarrow> bool"
and holds :: "(ustring \<Rightarrow> ustring) \<Rightarrow> DistributionStatement \<Rightarrow> WhereKey \<Rightarrow> bool" where
  "matches lw r (WhereInput ks) = list_all (holds lw r) ks"
| "holds lw r (AND ws) = list_all (matches lw r) ws"
| "holds lw r (OR ws) = list_ex (matches lw r) ws"
| "holds lw r (ContainsInsensitive c q) =
     (case q of None \<Rightarrow> True | Some s \<Rightarrow> containsInsensitive lw (column c r) s)"
| "holds lw r (UserIdEquals u) = (ds_userId r = u)"
| "holds lw r (TeamIdEquals t) = (ds_teamId r = t)"
| "holds lw r (UserEmailEquals e) = (ds_userEmail r = e)"
| "holds lw r (MusicPlatformsSomeIn ids) =
     list_ex (\<lambda>p. p \<in> set ids) (distributionStatementMusicPlatforms r)"
| "holds lw r (TerritoriesSomeIn ids) =
     list_ex (\<lambda>t. t \<in> set ids) (distributionStatementTerritories r)"
| "holds lw r (CreatedAtGte t) = (t \<le> createdAt r)"
| "holds lw r (Raw p) = p r"

section \<open>The storage and tenant collaborators\<close>

datatype Direction = asc | desc

text \<open>
  The database: the teams, the distribution statements in their storage order, for every
  column name the rank of a row's value in that column, by which the storage orders a
  result, and the \<open>lower\<close> of its locale, which folds a text to lower case.
\<close>

record Database =
  teams :: "Team list"
  distributionStatements :: "DistributionStatement list"
  columnRank :: "string \<Rightarrow> DistributionStatement \<Rightarrow> int"
  lower :: "ustring \<Rightarrow> ustring"

text \<open>
  The errors a call can end in: the team lookup finds nothing, the date library refuses
  its argument, the storage layer refuses a request on validating it.
\<close>

datatype Error = NotFoundError | InvalidArgumentError | PrismaClientValidationError

text \<open>Every request the storage carries out on the database, in the order of issue.\<close>

datatype StorageCall =
    TeamFindFirstOrThrow int int
  | DistributionStatementFindMany WhereInput nat nat "string \<times> Direction"
  | DistributionStatementCount WhereInput

text \<open>
  \<open>prisma.team.findFirstOrThrow\<close> with \<open>id: teamId, members: {some: {userId}}\<close>: the
  first team with that id of which the user is a member, or the not-found error.
\<close>

definition teamFindFirstOrThrow :: "Database \<Rightarrow> int \<Rightarrow> int \<Rightarrow> Error + Team" where
  "teamFindFirstOrThrow db tid uid =
     (case find (\<lambda>t. team_id t = tid \<and> list_ex (\<lambda>m. fst m = uid) (members t)) (teams db) of
        None \<Rightarrow> Inl NotFoundError
      | Some t \<Rightarrow> Inr t)"

definition orderRows ::
  "Database \<Rightarrow> string \<times> Direction \<Rightarrow> DistributionStatement list \<Rightarrow> DistributionStatement list"
where
  "orderRows db ob rs =
     (case snd ob of
        asc \<Rightarrow> sort_key (columnRank db (fst ob)) rs
      | desc \<Rightarrow> rev (sort_key (columnRank db (fst ob)) rs))"

definition findMany ::
  "Database \<Rightarrow> WhereInput \<Rightarrow> nat \<Rightarrow> nat \<Rightarrow> string \<times> Direction \<Rightarrow> DistributionStatement list"
where
  "findMany db w skip tk ob =
     take tk (drop skip (orderRows db ob
       (filter (\<lambda>r. matches (lower db) r w) (distributionStatements db))))"

definition countRows :: "Database \<Rightarrow> WhereInput \<Rightarrow> nat" where
  "countRows db w = length (filter (\<lambda>r. matches (lower db) r w) (distributionStatements db))"

section \<open>Numbers, strings and dates of the host language\<close>

text \<open>
  The result of a division of two counts: a number, or one of the two values a zero
  divisor gives. Counts are far below \<open>2^53\<close>, where the quotient of two integers and its
  ceiling are exact.
\<close>

datatype JsNumber = Num rat | Infinity | NaN

definition jsDivide :: "nat \<Rightarrow> nat \<Rightarrow> JsNumber" where
  "jsDivide a b =
     (if b = 0 then (if a = 0 then NaN else Infinity) else Num (of_nat a / of_nat b))"

fun mathCeil :: "JsNumber \<Rightarrow> JsNumber" where
  "mathCeil (Num x) = Num (of_int \<lceil>x\<rceil>)"
| "mathCeil Infinity = Infinity"
| "mathCeil NaN = NaN"

text \<open>\<open>period.replace(/d$/, '')\<close>: one trailing \<open>d\<close> (character 100) is removed.\<close>

definition stripTrailingD :: "ustring \<Rightarrow> ustring" where
  "stripTrailingD s = (if s \<noteq> [] \<and> last s = 100 then butlast s else s)"

definition isDigit :: "nat \<Rightarrow> bool" where
  "isDigit c = (48 \<le> c \<and> c \<le> 57)"

text \<open>
  The white space \<open>parseInt\<close> skips: tab, line feed, vertical tab, form feed, carriage
  return, space, no-break space, the other space separators of Unicode, the line and
  paragraph separators, and the byte order mark.
\<close>

definition isSpace :: "nat \<Rightarrow> bool" where
  "isSpace c =
     (c \<in> {9, 10, 11, 12, 13, 32, 160, 5760, 8232, 8233, 8239, 8287, 12288, 65279}
      \<or> (8192 \<le> c \<and> c \<le> 8202))"

fun digitsValue :: "int \<Rightarrow> ustring \<Rightarrow> int" where
  "digitsValue acc [] = acc"
| "digitsValue acc (c # cs) = digitsValue (acc * 10 + (int c - 48)) cs"

text \<open>
  \<open>parseInt(s, 10)\<close>: leading white space, an optional sign (45 is \<open>-\<close>, 43 is \<open>+\<close>), then
  the longest run of decimal digits; \<open>None\<close> stands for \<open>NaN\<close>, the result when there is no
  digit. The result here is the number the digits denote; beyond \<open>2^53\<close> the host language
  keeps only a nearby number, which as a count of days is far outside every date that
  \<open>startOfPeriod\<close> accepts, as the exact one is.
\<close>

definition parseInt :: "ustring \<Rightarrow> int option" where
  "parseInt s =
     (let t = dropWhile isSpace s;
          sgn = (case t of c # _ \<Rightarrow> (if c = 45 then - 1 else 1) | [] \<Rightarrow> 1);
          u = (case t of c # cs \<Rightarrow> (if c = 45 \<or> c = 43 then cs else t) | [] \<Rightarrow> t);
          ds = takeWhile isDigit u
      in if ds = [] then None else Some (sgn * digitsValue 0 ds))"

text \<open>
  The clock of one call: the instant \<open>DateTime.now()\<close> reads, in milliseconds since the
  epoch, and the local zone, which gives for every instant its offset from UTC in whole
  minutes, the unit in which the date library reads it.
\<close>

record Clock =
  now :: int
  zone :: "int \<Rightarrow> int"

definition msPerDay :: int where
  "msPerDay = 86400000"

definition msPerMinute :: int where
  "msPerMinute = 60000"

text \<open>
  The date library keeps a date as an instant and the offset in force. To turn a local
  wall-clock time back into an instant it guesses with the offset it has, corrects the
  guess once with the offset the zone has there, and, if the zone still disagrees (the
  wall-clock time falls into a gap of the zone), settles past the gap.
\<close>

definition fixOffset :: "(int \<Rightarrow> int) \<Rightarrow> int \<Rightarrow> int \<Rightarrow> int \<times> int" where
  "fixOffset tz localTS off =
     (let utcGuess = localTS - off * msPerMinute;
          off2 = tz utcGuess
      in if off = off2 then (utcGuess, off)
         else (let utcGuess2 = utcGuess - (off2 - off) * msPerMinute;
                   off3 = tz utcGuess2
               in if off2 = off3 then (utcGuess2, off2)
                  else (localTS - min off2 off3 * msPerMinute, max off2 off3)))"

text \<open>\<open>minus({ days })\<close>: the wall-clock time moves back by whole days.\<close>

definition minusDays :: "(int \<Rightarrow> int) \<Rightarrow> int \<times> int \<Rightarrow> int \<Rightarrow> int \<times> int" where
  "minusDays tz dt d = fixOffset tz (fst dt + snd dt * msPerMinute - d * msPerDay) (snd dt)"

text \<open>\<open>startOf('day')\<close>: the wall-clock time is cut to its midnight.\<close>

definition startOfDay :: "(int \<Rightarrow> int) \<Rightarrow> int \<times> int \<Rightarrow> int \<times> int" where
  "startOfDay tz dt =
     fixOffset tz (((fst dt + snd dt * msPerMinute) div msPerDay) * msPerDay) (snd dt)"

text \<open>
  The wall-clock times at which the years 1 and 10000 begin, in milliseconds. \<open>toISO()\<close>
  writes a date of these years with four digits for the year, and the storage layer takes
  the text as the instant it denotes. For a date outside them \<open>toISO()\<close> gives a signed
  six-digit year, or \<open>null\<close> when the date is beyond what the host language can hold, and
  the storage layer refuses the request on validating it: nothing reaches the database.
\<close>

definition firstOfYear1 :: int where
  "firstOfYear1 = - 62135596800000"

definition firstOfYear10000 :: int where
  "firstOfYear10000 = 253402300800000"

definition toISO :: "int \<times> int \<Rightarrow> int option" where
  "toISO dt =
     (let wall = fst dt + snd dt * msPerMinute
      in if firstOfYear1 \<le> wall \<and> wall < firstOfYear10000 then Some (fst dt) else None)"

text \<open>
  \<open>DateTime.now().minus({ days: daysAgo }).startOf('day').toISO()\<close> as the instant the
  storage layer reads. The date library throws on a \<open>NaN\<close> amount of days; the storage
  layer refuses a date it cannot read.
\<close>

definition startOfPeriod :: "Clock \<Rightarrow> int option \<Rightarrow> Error + int" where
  "startOfPeriod clk daysAgo =
     (case daysAgo of
        None \<Rightarrow> Inl InvalidArgumentError
      | Some d \<Rightarrow>
          (case toISO (startOfDay (zone clk)
                         (minusDays (zone clk) (now clk, zone clk (now clk)) d)) of
             None \<Rightarrow> Inl PrismaClientValidationError
           | Some t \<Rightarrow> Inr t))"

section \<open>findDistribution\<close>

text \<open>
  The options of a call; an option that is absent (\<open>undefined\<close>) is \<open>None\<close>. \<open>page\<close> is a
  whole number of any sign, \<open>perPage\<close> a page size, a whole number that is not negative.
  \<open>orderBy\<close> names a column and a direction, \<open>where'\<close> is the caller's extra filter.
\<close>

record FindReleaseOptions =
  userId :: int
  teamId :: "int option"
  page :: "int option"
  perPage :: "nat option"
  orderBy :: "(string \<times> Direction) option"
  where' :: "WhereInput option"
  period :: "ustring option"
  query :: "ustring option"
  platformIds :: "int list option"
  territoryIds :: "int list option"

text \<open>The page returned; \<open>res_perPage\<close> is its \<open>perPage\<close> field.\<close>

record FindResultResponse =
  data :: "DistributionStatement list"
  count :: nat
  currentPage :: int
  res_perPage :: nat
  totalPages :: JsNumber

text \<open>The team lookup, made only when a \<open>teamId\<close> is given.\<close>

definition resolveTeam ::
  "Database \<Rightarrow> int \<Rightarrow> int option \<Rightarrow> (Error + Team option) \<times> StorageCall list"
where
  "resolveTeam db uid tid =
     (case tid of
        None \<Rightarrow> (Inr None, [])
      | Some t \<Rightarrow>
          (case teamFindFirstOrThrow db t uid of
             Inl e \<Rightarrow> (Inl e, [TeamFindFirstOrThrow t uid])
           | Inr team \<Rightarrow> (Inr (Some team), [TeamFindFirstOrThrow t uid])))"

definition searchFilter :: "ustring option \<Rightarrow> WhereInput" where
  "searchFilter q =
     WhereInput [OR
       [WhereInput [ContainsInsensitive Proyecto q],
        WhereInput [ContainsInsensitive Isrc q],
        WhereInput [ContainsInsensitive MarketingOwner q],
        WhereInput [ContainsInsensitive NombreDistribucion q],
        WhereInput [ContainsInsensitive NumeroDeCatalogo q],
        WhereInput [ContainsInsensitive TituloCatalogo q],
        WhereInput [ContainsInsensitive Proyecto q],
        WhereInput [ContainsInsensitive TipoDeIngreso q]]]"

text \<open>The tenant filter, the value of \<open>Filter\<close> after the \<open>if (team)\<close> statement.\<close>

definition Filter :: "Team option \<Rightarrow> int \<Rightarrow> WhereInput" where
  "Filter team uid =
     (case team of
        Some t \<Rightarrow>
          WhereInput [AND [WhereInput [OR
            (case teamEmail t of
               Some e \<Rightarrow>
                 [WhereInput [TeamIdEquals (Some (team_id t))],
                  WhereInput [UserEmailEquals e]]
             | None \<Rightarrow> [WhereInput [TeamIdEquals (Some (team_id t))]])]]]
      | None \<Rightarrow>
          WhereInput [AND [WhereInput [OR
            [WhereInput [UserIdEquals uid, TeamIdEquals None]]]]])"

text \<open>\<open>{ ...where }\<close>: the caller's filter, or the empty object when there is none.\<close>

definition spreadWhere :: "WhereInput option \<Rightarrow> WhereInput" where
  "spreadWhere w = (case w of None \<Rightarrow> WhereInput [] | Some x \<Rightarrow> x)"

definition whereAndClause :: "Team option \<Rightarrow> FindReleaseOptions \<Rightarrow> WhereInput list" where
  "whereAndClause team opts =
     [searchFilter (query opts), Filter team (userId opts), spreadWhere (where' opts)]"

text \<open>The keys the two facet tests add to \<open>whereClause\<close>.\<close>

definition platformKey :: "int list option \<Rightarrow> WhereKey list" where
  "platformKey ids =
     (case ids of
        None \<Rightarrow> []
      | Some xs \<Rightarrow> (if length xs > 0 then [MusicPlatformsSomeIn xs] else []))"

definition territoryKey :: "int list option \<Rightarrow> WhereKey list" where
  "territoryKey ids =
     (case ids of
        None \<Rightarrow> []
      | Some xs \<Rightarrow> (if length xs > 0 then [TerritoriesSomeIn xs] else []))"

text \<open>
  The key the \<open>if (period)\<close> statement adds: nothing for an absent or empty period,
  otherwise the lower bound on \<open>createdAt\<close>. When the date library throws, the call ends
  there; when the date is one the storage layer cannot read, the query and the count are
  refused on validation and the call ends with that error, nothing having reached the
  database.
\<close>

definition periodKey :: "Clock \<Rightarrow> ustring option \<Rightarrow> Error + WhereKey list" where
  "periodKey clk p =
     (case p of
        None \<Rightarrow> Inr []
      | Some s \<Rightarrow>
          (if s = [] then Inr []
           else (case startOfPeriod clk (parseInt (stripTrailingD s)) of
                   Inl e \<Rightarrow> Inl e
                 | Inr t \<Rightarrow> Inr [CreatedAtGte t])))"

definition whereClause :: "Clock \<Rightarrow> Team option \<Rightarrow> FindReleaseOptions \<Rightarrow> Error + WhereInput" where
  "whereClause clk team opts =
     (case periodKey clk (period opts) of
        Inl e \<Rightarrow> Inl e
      | Inr pk \<Rightarrow>
          Inr (WhereInput
                 ([AND (whereAndClause team opts)]
                  @ platformKey (platformIds opts)
                  @ territoryKey (territoryIds opts)
                  @ pk)))"

text \<open>
  The call itself: the result or the error thrown, and the requests sent to the storage.
  The query and the count are both issued, with the same \<open>whereClause\<close>, before the
  result is assembled.
\<close>

definition findDistribution ::
  "Clock \<Rightarrow> Database \<Rightarrow> FindReleaseOptions \<Rightarrow> (Error + FindResultResponse) \<times> StorageCall list"
where
  "findDistribution clk db opts =
     (let pg = (case page opts of None \<Rightarrow> 1 | Some p \<Rightarrow> p);
          pp = (case perPage opts of None \<Rightarrow> 10 | Some n \<Rightarrow> n)
      in case resolveTeam db (userId opts) (teamId opts) of
           (Inl e, calls) \<Rightarrow> (Inl e, calls)
         | (Inr team, calls) \<Rightarrow>
             (let orderByColumn = (case orderBy opts of None \<Rightarrow> ''id'' | Some ob \<Rightarrow> fst ob);
                  orderByDirection = (case orderBy opts of None \<Rightarrow> asc | Some ob \<Rightarrow> snd ob)
              in case whereClause clk team opts of
                   Inl e \<Rightarrow> (Inl e, calls)
                 | Inr w \<Rightarrow>
                     (let skip = nat (max (pg - 1) 0) * pp;
                          ob = (orderByColumn, orderByDirection);
                          rows = findMany db w skip pp ob;
                          cnt = countRows db w
                      in (Inr \<lparr> data = rows,
                                count = cnt,
                                currentPage = max pg 1,
                                res_perPage = pp,
                                totalPages = mathCeil (jsDivide cnt pp) \<rparr>,
                          calls @ [DistributionStatementFindMany w skip pp ob,
                                   DistributionStatementCount w]))))"

section \<open>Notions the statements use\<close>

text \<open>
  The seven searched fields, as the specification lists them: project name, ISRC code,
  marketing owner, distribution name, catalog number, catalog title and income type.
\<close>

definition searchedColumns :: "StringColumn list" where
  "searchedColumns =
     [Proyecto, Isrc, MarketingOwner, NombreDistribucion, NumeroDeCatalogo, TituloCatalogo,
      TipoDeIngreso]"

text \<open>A text without the three characters a pattern reads specially.\<close>

definition wildcardFree :: "ustring \<Rightarrow> bool" where
  "wildcardFree q = list_all (\<lambda>c. c \<noteq> 37 \<and> c \<noteq> 95 \<and> c \<noteq> 92) q"

text \<open>The wall-clock reading of the local zone at an instant, in milliseconds.\<close>

definition wallClock :: "Clock \<Rightarrow> int \<Rightarrow> int" where
  "wallClock clk t = t + zone clk t * msPerMinute"

text \<open>
  The date library finds an instant with a given wall-clock reading when its first guess,
  or the guess corrected once, agrees with the zone, as happens unless a change of the
  zone's offset stands in the way, for instance when the reading falls into a gap.
\<close>

definition wallTimeFound :: "(int \<Rightarrow> int) \<Rightarrow> int \<Rightarrow> int \<Rightarrow> bool" where
  "wallTimeFound tz localTS off =
     (let t1 = localTS - off * msPerMinute;
          t2 = localTS - tz t1 * msPerMinute
      in tz t1 = off \<or> tz t2 = tz t1)"

text \<open>
  Both wall-clock readings the period computation aims at are found: the reading of the
  call time moved back by \<open>d\<close> days, and the midnight of that day.
\<close>

definition dayFound :: "Clock \<Rightarrow> int \<Rightarrow> bool" where
  "dayFound clk d =
     (let off = zone clk (now clk);
          wall = now clk + off * msPerMinute - d * msPerDay
      in wallTimeFound (zone clk) wall off
         \<and> wallTimeFound (zone clk) ((wall div msPerDay) * msPerDay)
              (snd (minusDays (zone clk) (now clk, off) d)))"

section \<open>A small database for the concrete runs\<close>

definition statementA :: DistributionStatement where
  "statementA =
     \<lparr> ds_id = 1, ds_userId = 7, ds_teamId = None, ds_userEmail = ''ana@x.io'',
       createdAt = 1699900000000,
       proyecto = Some (ascii ''Verano''), isrc = Some (ascii ''ISRC-123''), marketingOwner = None,
       nombreDistribucion = None, numeroDeCatalogo = None, tituloCatalogo = None,
       tipoDeIngreso = None,
       distributionStatementMusicPlatforms = [5],
       distributionStatementTerritories = [2] \<rparr>"

definition statementB :: DistributionStatement where
  "statementB =
     \<lparr> ds_id = 2, ds_userId = 7, ds_teamId = Some 3, ds_userEmail = ''ana@x.io'',
       createdAt = 1699000000000,
       proyecto = Some (ascii ''Invierno''), isrc = None, marketingOwner = None,
       nombreDistribucion = None, numeroDeCatalogo = None, tituloCatalogo = None,
       tipoDeIngreso = None,
       distributionStatementMusicPlatforms = [],
       distributionStatementTerritories = [] \<rparr>"

definition statementC :: DistributionStatement where
  "statementC =
     \<lparr> ds_id = 3, ds_userId = 9, ds_teamId = None, ds_userEmail = ''team@x.io'',
       createdAt = 1699900000000,
       proyecto = None, isrc = None, marketingOwner = Some (ascii ''Sofia''),
       nombreDistribucion = None, numeroDeCatalogo = None, tituloCatalogo = None,
       tipoDeIngreso = None,
       distributionStatementMusicPlatforms = [6],
       distributionStatementTerritories = [] \<rparr>"

definition statementD :: DistributionStatement where
  "statementD =
     \<lparr> ds_id = 4, ds_userId = 7, ds_teamId = None, ds_userEmail = ''ana@x.io'',
       createdAt = 1690000000000,
       proyecto = Some (ascii ''Otono''), isrc = None, marketingOwner = None,
       nombreDistribucion = None, numeroDeCatalogo = None, tituloCatalogo = None,
       tipoDeIngreso = Some (ascii ''Royalty''),
       distributionStatementMusicPlatforms = [6, 5],
       distributionStatementTerritories = [1] \<rparr>"

definition statementE :: DistributionStatement where
  "statementE =
     \<lparr> ds_id = 5, ds_userId = 8, ds_teamId = Some 4, ds_userEmail = ''bea@x.io'',
       createdAt = 1699950000000,
       proyecto = Some (ascii ''Solo''), isrc = None, marketingOwner = None,
       nombreDistribucion = None, numeroDeCatalogo = None, tituloCatalogo = None,
       tipoDeIngreso = None,
       distributionStatementMusicPlatforms = [],
       distributionStatementTerritories = [2] \<rparr>"

text \<open>
  The example database folds the letters A to Z, each by itself, and nothing else.
\<close>

definition asciiLower :: "nat \<Rightarrow> nat" where
  "asciiLower c = (if 65 \<le> c \<and> c \<le> 90 then c + 32 else c)"

definition exampleDb :: Database where
  "exampleDb =
     \<lparr> teams =
         [\<lparr> team_id = 3, teamEmail = Some ''team@x.io'', members = [(7, ''ADMIN'')] \<rparr>,
          \<lparr> team_id = 4, teamEmail = None, members = [(8, ''MEMBER'')] \<rparr>],
       distributionStatements = [statementA, statementB, statementC, statementD, statementE],
       columnRank = (\<lambda>c r. ds_id r),
       lower = map asciiLower \<rparr>"

text \<open>The call time is 2023-11-14T22:13:20Z, in a zone at UTC.\<close>

definition exampleClock :: Clock where
  "exampleClock = \<lparr> now = 1700000000000, zone = (\<lambda>t. 0) \<rparr>"

text \<open>
  New York: four hours behind UTC until 2023-11-05T06:00:00Z, five hours from then on. The
  call time is 2023-11-08T21:46:40Z, after the change; seven days earlier is before it.
\<close>

definition newYork :: "int \<Rightarrow> int" where
  "newYork t = (if t < 1699164000000 then - 240 else - 300)"

definition newYorkClock :: Clock where
  "newYorkClock = \<lparr> now = 1699480000000, zone = newYork \<rparr>"

definition personalRequest :: FindReleaseOptions where
  "personalRequest =
     \<lparr> userId = 7, teamId = None, page = None, perPage = None, orderBy = None,
       where' = None, period = None, query = Some (ascii ''o''),
       platformIds = None, territoryIds = None \<rparr>"

section \<open>Properties of the model\<close>

subsection \<open>Evaluation\<close>

text \<open>The equations that evaluate a call on concrete data.\<close>

lemmas model_defs =
  findDistribution_def resolveTeam_def teamFindFirstOrThrow_def whereClause_def periodKey_def
  startOfPeriod_def toISO_def startOfDay_def minusDays_def fixOffset_def firstOfYear1_def
  firstOfYear10000_def msPerMinute_def msPerDay_def parseInt_def stripTrailingD_def
  isDigit_def isSpace_def whereAndClause_def searchFilter_def Filter_def spreadWhere_def
  platformKey_def territoryKey_def findMany_def countRows_def orderRows_def
  containsInsensitive_def Let_def

lemmas example_defs =
  exampleDb_def exampleClock_def personalRequest_def statementA_def statementB_def
  statementC_def statementD_def statementE_def ascii_def asciiLower_def

lemma mathCeil_jsDivide:
  "mathCeil (jsDivide a b) =
     (if b = 0 then (if a = 0 then NaN else Infinity)
      else Num (of_int \<lceil>rat_of_nat a / rat_of_nat b\<rceil>))"
  by (simp add: jsDivide_def)

lemma mathCeil_jsDivide_pos:
  "0 < b \<Longrightarrow> mathCeil (jsDivide a b) = Num (of_int (- (- int a div int b)))"
proof -
  have "\<lceil>rat_of_nat a / rat_of_nat b\<rceil> = \<lceil>rat_of_int (int a) / rat_of_int (int b)\<rceil>"
    by simp
  also have "\<dots> = - (- int a div int b)"
    by (rule ceiling_divide_eq_div)
  finally show ?thesis if "0 < b"
    using that by (simp add: jsDivide_def)
qed

subsection \<open>What a successful call did\<close>

lemma findDistribution_Inr:
  assumes "fst (findDistribution clk db opts) = Inr res"
  shows "\<exists>team w pre.
           resolveTeam db (userId opts) (teamId opts) = (Inr team, pre)
         \<and> whereClause clk team opts = Inr w
         \<and> data res = findMany db w
              (nat (max ((case page opts of None \<Rightarrow> 1 | Some p \<Rightarrow> p) - 1) 0)
                 * (case perPage opts of None \<Rightarrow> 10 | Some n \<Rightarrow> n))
              (case perPage opts of None \<Rightarrow> 10 | Some n \<Rightarrow> n)
              (case orderBy opts of None \<Rightarrow> (''id'', asc) | Some ob \<Rightarrow> ob)
         \<and> count res = countRows db w
         \<and> totalPages res =
              mathCeil (jsDivide (countRows db w) (case perPage opts of None \<Rightarrow> 10 | Some n \<Rightarrow> n))
         \<and> snd (findDistribution clk db opts) =
              pre @ [DistributionStatementFindMany w
                (nat (max ((case page opts of None \<Rightarrow> 1 | Some p \<Rightarrow> p) - 1) 0)
                   * (case perPage opts of None \<Rightarrow> 10 | Some n \<Rightarrow> n))
                (case perPage opts of None \<Rightarrow> 10 | Some n \<Rightarrow> n)
                (case orderBy opts of None \<Rightarrow> (''id'', asc) | Some ob \<Rightarrow> ob),
                DistributionStatementCount w]"
  using assms
  by (auto simp: findDistribution_def Let_def split: prod.splits sum.splits option.splits)

lemma findDistribution_success:
  assumes "resolveTeam db (userId opts) (teamId opts) = (Inr team, pre)"
      and "whereClause clk team opts = Inr w"
  shows "\<exists>res skip tk ob.
           findDistribution clk db opts =
             (Inr res, pre @ [DistributionStatementFindMany w skip tk ob,
                              DistributionStatementCount w])
         \<and> data res = findMany db w skip tk ob
         \<and> count res = countRows db w"
  using assms by (simp add: findDistribution_def Let_def)

lemma set_findMany:
  "set (findMany db w s t ob) \<subseteq> {r \<in> set (distributionStatements db). matches (lower db) r w}"
proof -
  let ?hits = "filter (\<lambda>r. matches (lower db) r w) (distributionStatements db)"
  have "set (findMany db w s t ob) \<subseteq> set (orderRows db ob ?hits)"
    unfolding findMany_def by (meson set_take_subset set_drop_subset subset_trans)
  also have "\<dots> = set ?hits"
    by (cases "snd ob") (simp_all add: orderRows_def)
  finally show ?thesis by auto
qed

lemma resolveTeam_None: "resolveTeam db uid None = (Inr None, [])"
  by (simp add: resolveTeam_def)

lemma resolveTeam_Some_Inr:
  assumes "resolveTeam db uid (Some tid) = (Inr team, pre)"
  shows "\<exists>t. team = Some t \<and> teamFindFirstOrThrow db tid uid = Inr t \<and> team_id t = tid
           \<and> uid \<in> fst ` set (members t) \<and> t \<in> set (teams db)
           \<and> pre = [TeamFindFirstOrThrow tid uid]"
proof -
  from assms obtain t where t: "teamFindFirstOrThrow db tid uid = Inr t" "team = Some t"
      "pre = [TeamFindFirstOrThrow tid uid]"
    by (auto simp: resolveTeam_def split: sum.splits)
  from t(1) have "find (\<lambda>t. team_id t = tid \<and> list_ex (\<lambda>m. fst m = uid) (members t)) (teams db) = Some t"
    by (simp add: teamFindFirstOrThrow_def split: option.splits)
  then have "team_id t = tid" "list_ex (\<lambda>m. fst m = uid) (members t)" "t \<in> set (teams db)"
    by (auto simp: find_Some_iff)
  then show ?thesis using t by (auto simp: list_ex_iff)
qed

subsection \<open>What the composed filter accepts\<close>

lemma matches_whereClause:
  assumes "whereClause clk team opts = Inr w"
  shows "matches lw r w \<longleftrightarrow>
           matches lw r (searchFilter (query opts))
         \<and> matches lw r (Filter team (userId opts))
         \<and> matches lw r (spreadWhere (where' opts))
         \<and> list_all (holds lw r) (platformKey (platformIds opts))
         \<and> list_all (holds lw r) (territoryKey (territoryIds opts))
         \<and> (\<exists>pk. periodKey clk (period opts) = Inr pk \<and> list_all (holds lw r) pk)"
  using assms
  by (auto simp: whereClause_def whereAndClause_def split: sum.splits)

lemma matches_Filter_None:
  "matches lw r (Filter None uid) \<longleftrightarrow> ds_userId r = uid \<and> ds_teamId r = None"
  by (simp add: Filter_def)

lemma matches_Filter_Some:
  "matches lw r (Filter (Some t) uid) \<longleftrightarrow>
     (case teamEmail t of
        Some e \<Rightarrow> ds_teamId r = Some (team_id t) \<or> ds_userEmail r = e
      | None \<Rightarrow> ds_teamId r = Some (team_id t))"
  by (simp add: Filter_def split: option.splits)

lemma matches_searchFilter:
  "matches lw r (searchFilter (Some q)) \<longleftrightarrow>
     list_ex (\<lambda>c. containsInsensitive lw (column c r) q) searchedColumns"
  by (auto simp: searchFilter_def searchedColumns_def)

lemma holds_platformKey:
  "ps \<noteq> [] \<Longrightarrow> list_all (holds lw r) (platformKey (Some ps)) \<longleftrightarrow>
     (\<exists>p \<in> set (distributionStatementMusicPlatforms r). p \<in> set ps)"
  by (simp add: platformKey_def list_ex_iff)

lemma holds_territoryKey:
  "ts \<noteq> [] \<Longrightarrow> list_all (holds lw r) (territoryKey (Some ts)) \<longleftrightarrow>
     (\<exists>t \<in> set (distributionStatementTerritories r). t \<in> set ts)"
  by (simp add: territoryKey_def list_ex_iff)

lemma member_iff: "list_ex (\<lambda>m. fst m = u) ms \<longleftrightarrow> u \<in> fst ` set ms"
  by (induction ms) auto

subsection \<open>Patterns\<close>

lemma likeMatch_percent:
  "likeMatch (37 # ps) t \<longleftrightarrow> (\<exists>ys zs. t = ys @ zs \<and> likeMatch ps zs)"
proof (induction t)
  case Nil
  show ?case by simp
next
  case (Cons c cs)
  have "likeMatch (37 # ps) (c # cs) \<longleftrightarrow> likeMatch ps (c # cs) \<or> likeMatch (37 # ps) cs"
    by simp
  also have "\<dots> \<longleftrightarrow> likeMatch ps (c # cs) \<or> (\<exists>ys zs. cs = ys @ zs \<and> likeMatch ps zs)"
    by (simp only: Cons.IH)
  also have "\<dots> \<longleftrightarrow> (\<exists>ys zs. c # cs = ys @ zs \<and> likeMatch ps zs)"
    by (auto simp: Cons_eq_append_conv)
  finally show ?case .
qed

lemma likeMatch_literal:
  assumes "wildcardFree q"
  shows "likeMatch (q @ ps) t \<longleftrightarrow> (\<exists>zs. t = q @ zs \<and> likeMatch ps zs)"
  using assms
proof (induction q arbitrary: t)
  case Nil
  show ?case by simp
next
  case (Cons a q)
  then have a: "a \<noteq> 37" "a \<noteq> 95" "a \<noteq> 92" and q: "wildcardFree q"
    by (simp_all add: wildcardFree_def)
  show ?case
  proof (cases t)
    case Nil
    with a show ?thesis by simp
  next
    case (Cons c cs)
    with a Cons.IH [OF q, of cs] show ?thesis by auto
  qed
qed

lemma likeMatch_contains:
  assumes "wildcardFree q"
  shows "likeMatch (37 # q @ [37]) v \<longleftrightarrow> sublist q v"
proof -
  have all: "likeMatch [37] t" for t
    by (simp add: likeMatch_percent)
  have "likeMatch (37 # q @ [37]) v \<longleftrightarrow> (\<exists>ys zs. v = ys @ zs \<and> likeMatch (q @ [37]) zs)"
    by (rule likeMatch_percent)
  also have "\<dots> \<longleftrightarrow> (\<exists>ys zs. v = ys @ q @ zs)"
    by (auto simp: likeMatch_literal [OF assms] all)
  finally show ?thesis
    by (simp add: sublist_def)
qed

lemma containsInsensitive_substring:
  assumes "lw (37 # q @ [37]) = 37 # lw q @ [37]" and "wildcardFree (lw q)"
  shows "containsInsensitive lw (Some v) q \<longleftrightarrow> sublist (lw q) (lw v)"
  using likeMatch_contains [OF assms(2), of "lw v"]
  by (simp add: containsInsensitive_def assms(1))

subsection \<open>Dates\<close>

lemma fixOffset_found:
  assumes "wallTimeFound tz localTS off" and "fixOffset tz localTS off = (t, off')"
  shows "tz t = off'" and "t + off' * msPerMinute = localTS"
proof -
  define a where "a = tz (localTS - off * msPerMinute)"
  have g: "localTS - off * msPerMinute - (a - off) * msPerMinute = localTS - a * msPerMinute"
    by (simp add: algebra_simps)
  have "tz t = off' \<and> t + off' * msPerMinute = localTS"
  proof (cases "off = a")
    case True
    from assms(2) True have t: "t = localTS - off * msPerMinute" and o: "off' = a"
      unfolding fixOffset_def Let_def a_def [symmetric] by auto
    have "tz t = a"
      unfolding t a_def ..
    with t o True show ?thesis by simp
  next
    case False
    with assms(1) have f: "tz (localTS - a * msPerMinute) = a"
      by (simp add: wallTimeFound_def Let_def a_def)
    from assms(2) False have "t = localTS - a * msPerMinute" and "off' = a"
      unfolding fixOffset_def Let_def a_def [symmetric] g f by auto
    with f show ?thesis by simp
  qed
  then show "tz t = off'" and "t + off' * msPerMinute = localTS"
    by simp_all
qed

lemma fixOffset_wall:
  assumes "\<forall>t. \<bar>tz t\<bar> \<le> 1440" and "fixOffset tz localTS off = (t, off')"
  shows "localTS \<le> t + off' * msPerMinute" and "t + off' * msPerMinute \<le> localTS + 2 * msPerDay"
proof -
  define a where "a = tz (localTS - off * msPerMinute)"
  define b where "b = tz (localTS - off * msPerMinute - (a - off) * msPerMinute)"
  have ab: "\<bar>a\<bar> \<le> 1440" "\<bar>b\<bar> \<le> 1440"
    using assms(1) by (simp_all add: a_def b_def)
  from assms(2) have "t + off' * msPerMinute = localTS
      \<or> t + off' * msPerMinute = localTS - min a b * msPerMinute + max a b * msPerMinute"
    by (auto simp: fixOffset_def Let_def a_def b_def algebra_simps split: if_splits)
  then show "localTS \<le> t + off' * msPerMinute"
    and "t + off' * msPerMinute \<le> localTS + 2 * msPerDay"
    using ab by (auto simp: msPerMinute_def msPerDay_def min_def max_def split: if_splits)
qed

lemma floor_to_multiple:
  fixes x D :: int
  assumes "0 < D"
  shows "x div D * D \<le> x" and "x < x div D * D + D"
proof -
  define q where "q = x div D * D"
  have "x = q + x mod D"
    by (simp add: q_def)
  moreover have "0 \<le> x mod D" "x mod D < D"
    using assms by simp_all
  ultimately show "x div D * D \<le> x" and "x < x div D * D + D"
    unfolding q_def [symmetric] by linarith+
qed

lemma startOfPeriod_Inr:
  "startOfPeriod clk (Some d) = Inr b \<longleftrightarrow>
     (\<exists>off. startOfDay (zone clk) (minusDays (zone clk) (now clk, zone clk (now clk)) d) = (b, off)
           \<and> firstOfYear1 \<le> b + off * msPerMinute \<and> b + off * msPerMinute < firstOfYear10000)"
  by (cases "startOfDay (zone clk) (minusDays (zone clk) (now clk, zone clk (now clk)) d)")
     (auto simp: startOfPeriod_def toISO_def Let_def split: option.splits if_splits)

lemma startOfPeriod_wallClock:
  assumes "startOfPeriod clk (Some d) = Inr b" and "dayFound clk d"
  shows "wallClock clk b = (wallClock clk (now clk) div msPerDay - d) * msPerDay"
proof -
  define off0 where "off0 = zone clk (now clk)"
  define wall where "wall = now clk + off0 * msPerMinute - d * msPerDay"
  obtain t1 off1 where m: "minusDays (zone clk) (now clk, off0) d = (t1, off1)"
    by (cases "minusDays (zone clk) (now clk, off0) d")
  from assms(2) have f1: "wallTimeFound (zone clk) wall off0"
    and f2: "wallTimeFound (zone clk) ((wall div msPerDay) * msPerDay) off1"
    by (simp_all add: dayFound_def Let_def off0_def [symmetric] wall_def [symmetric] m)
  from m have "fixOffset (zone clk) wall off0 = (t1, off1)"
    by (simp add: minusDays_def wall_def)
  from fixOffset_found [OF f1 this] have w1: "t1 + off1 * msPerMinute = wall"
    by simp
  from assms(1) obtain off2 where
    s: "startOfDay (zone clk) (t1, off1) = (b, off2)"
    by (auto simp: startOfPeriod_Inr off0_def [symmetric] m)
  then have "fixOffset (zone clk) ((wall div msPerDay) * msPerDay) off1 = (b, off2)"
    by (simp add: startOfDay_def w1)
  from fixOffset_found [OF f2 this] have "zone clk b = off2"
    and "b + off2 * msPerMinute = (wall div msPerDay) * msPerDay"
    by simp_all
  then have "wallClock clk b = (wall div msPerDay) * msPerDay"
    by (simp add: wallClock_def)
  also have "wall div msPerDay = wallClock clk (now clk) div msPerDay - d"
    by (simp add: wall_def wallClock_def off0_def msPerDay_def)
  finally show ?thesis .
qed

lemma startOfPeriod_accepted:
  assumes "0 \<le> now clk" and "now clk < firstOfYear10000" and "\<forall>t. \<bar>zone clk t\<bar> \<le> 1440"
  shows "\<exists>b. startOfPeriod clk (Some 7) = Inr b"
proof -
  define off0 where "off0 = zone clk (now clk)"
  obtain t1 off1 where m: "minusDays (zone clk) (now clk, off0) 7 = (t1, off1)"
    by (cases "minusDays (zone clk) (now clk, off0) 7")
  obtain b off2 where s: "startOfDay (zone clk) (t1, off1) = (b, off2)"
    by (cases "startOfDay (zone clk) (t1, off1)")
  define w1 where "w1 = t1 + off1 * msPerMinute"
  define w2 where "w2 = b + off2 * msPerMinute"
  have o: "\<bar>off0\<bar> \<le> 1440"
    using assms(3) by (simp add: off0_def)
  from m have "fixOffset (zone clk) (now clk + off0 * msPerMinute - 7 * msPerDay) off0 = (t1, off1)"
    by (simp add: minusDays_def)
  from fixOffset_wall [OF assms(3) this]
  have b1: "now clk + off0 * msPerMinute - 7 * msPerDay \<le> w1"
    "w1 \<le> now clk + off0 * msPerMinute - 7 * msPerDay + 2 * msPerDay"
    by (simp_all add: w1_def)
  from s have "fixOffset (zone clk) ((w1 div msPerDay) * msPerDay) off1 = (b, off2)"
    by (simp add: startOfDay_def w1_def)
  from fixOffset_wall [OF assms(3) this]
  have b2: "(w1 div msPerDay) * msPerDay \<le> w2" "w2 \<le> (w1 div msPerDay) * msPerDay + 2 * msPerDay"
    by (simp_all add: w2_def)
  have pos: "0 < msPerDay" by (simp add: msPerDay_def)
  from floor_to_multiple [OF pos, of w1]
  have b3: "w1 div msPerDay * msPerDay \<le> w1" "w1 < w1 div msPerDay * msPerDay + msPerDay" .
  define M where "M = w1 div msPerDay * msPerDay"
  have "firstOfYear1 \<le> w2" "w2 < firstOfYear10000"
    using b1 b2 b3 o assms(1,2)
    unfolding M_def [symmetric]
    by (simp_all add: msPerDay_def msPerMinute_def firstOfYear1_def firstOfYear10000_def)
  then show ?thesis
    using m s by (auto simp: startOfPeriod_Inr off0_def [symmetric] w2_def)
qed

section \<open>Tenant scope\<close>

text \<open>
  Claim C1. A call without a \<open>teamId\<close> makes no team lookup and issues the query and the
  count with one filter; whatever that filter accepts is accepted by the tenant filter of the
  personal branch; the tenant filter accepts a row exactly when its owner is the requesting
  user and its \<open>teamId\<close> is null; hence every returned row is personally owned and not
  team-owned.
\<close>

theorem personal_scope:
  assumes "teamId opts = None"
      and "fst (findDistribution clk db opts) = Inr res"
  shows "\<exists>w skip tk ob.
           snd (findDistribution clk db opts) =
             [DistributionStatementFindMany w skip tk ob, DistributionStatementCount w]
         \<and> (\<forall>r. matches (lower db) r w \<longrightarrow> matches (lower db) r (Filter None (userId opts)))
         \<and> (\<forall>r. matches (lower db) r (Filter None (userId opts)) \<longleftrightarrow>
                  ds_userId r = userId opts \<and> ds_teamId r = None)
         \<and> (\<forall>r \<in> set (data res). ds_userId r = userId opts \<and> ds_teamId r = None)"
proof -
  from findDistribution_Inr [OF assms(2)] obtain team w pre skip tk ob where
      rt: "resolveTeam db (userId opts) (teamId opts) = (Inr team, pre)"
    and w: "whereClause clk team opts = Inr w"
    and d: "data res = findMany db w skip tk ob"
    and c: "snd (findDistribution clk db opts) =
              pre @ [DistributionStatementFindMany w skip tk ob, DistributionStatementCount w]"
    by blast
  from rt assms(1) have team: "team = None" and pre: "pre = []"
    by (simp_all add: resolveTeam_None)
  have tenant: "matches (lower db) r (Filter None (userId opts))" if "matches (lower db) r w" for r
    using that matches_whereClause [OF w, of "lower db" r] by (simp add: team)
  have "ds_userId r = userId opts \<and> ds_teamId r = None" if "r \<in> set (data res)" for r
  proof -
    from that have "matches (lower db) r w" using set_findMany [of db w skip tk ob] by (auto simp: d)
    then show ?thesis using tenant matches_Filter_None by blast
  qed
  with c pre tenant show ?thesis
    by (auto simp: matches_Filter_None)
qed

text \<open>
  User 7 without a team, on the example database: of the three rows user 7 owns, the one
  that belongs to team 3 is not returned.
\<close>

lemma personalRequest_run:
  "fst (findDistribution exampleClock exampleDb personalRequest) =
     Inr \<lparr> data = [statementA, statementD], count = 2, currentPage = 1, res_perPage = 10,
           totalPages = Num 1 \<rparr>"
  by (simp add: model_defs example_defs mathCeil_jsDivide_pos)

theorem personal_scope_witness:
  "teamId personalRequest = None
   \<and> fst (findDistribution exampleClock exampleDb personalRequest) =
       Inr \<lparr> data = [statementA, statementD], count = 2, currentPage = 1, res_perPage = 10,
             totalPages = Num 1 \<rparr>
   \<and> ds_userId statementA = 7 \<and> ds_teamId statementA = None
   \<and> ds_userId statementD = 7 \<and> ds_teamId statementD = None
   \<and> statementB \<in> set (distributionStatements exampleDb) \<and> ds_userId statementB = 7
   \<and> ds_teamId statementB = Some 3"
proof -
  have t: "teamId personalRequest = None"
    by (simp add: personalRequest_def)
  from personal_scope [OF t personalRequest_run]
  have "ds_userId statementA = userId personalRequest \<and> ds_teamId statementA = None
      \<and> ds_userId statementD = userId personalRequest \<and> ds_teamId statementD = None"
    by auto
  then show ?thesis
    using t personalRequest_run
    by (simp add: personalRequest_def exampleDb_def statementB_def)
qed

text \<open>
  Claim C2. A call with a \<open>teamId\<close> that succeeds has resolved a team with that id; the
  tenant filter of the issued query accepts a row exactly when its \<open>teamId\<close> is the team's
  id or, if the team has a shared inbox, the owner's e-mail is the inbox address; without a
  shared inbox it accepts exactly the rows of the team. Every returned row is such a row.
\<close>

theorem team_scope:
  assumes "teamId opts = Some tid"
      and "fst (findDistribution clk db opts) = Inr res"
  shows "\<exists>t w skip tk ob.
           teamFindFirstOrThrow db tid (userId opts) = Inr t \<and> team_id t = tid
         \<and> snd (findDistribution clk db opts) =
             [TeamFindFirstOrThrow tid (userId opts),
              DistributionStatementFindMany w skip tk ob, DistributionStatementCount w]
         \<and> (\<forall>r. matches (lower db) r w \<longrightarrow> matches (lower db) r (Filter (Some t) (userId opts)))
         \<and> (\<forall>r. matches (lower db) r (Filter (Some t) (userId opts)) \<longleftrightarrow>
                  (case teamEmail t of
                     Some e \<Rightarrow> ds_teamId r = Some tid \<or> ds_userEmail r = e
                   | None \<Rightarrow> ds_teamId r = Some tid))
         \<and> (\<forall>r \<in> set (data res).
                  (case teamEmail t of
                     Some e \<Rightarrow> ds_teamId r = Some tid \<or> ds_userEmail r = e
                   | None \<Rightarrow> ds_teamId r = Some tid))"
proof -
  from findDistribution_Inr [OF assms(2)] obtain team w pre skip tk ob where
      rt: "resolveTeam db (userId opts) (teamId opts) = (Inr team, pre)"
    and w: "whereClause clk team opts = Inr w"
    and d: "data res = findMany db w skip tk ob"
    and c: "snd (findDistribution clk db opts) =
              pre @ [DistributionStatementFindMany w skip tk ob, DistributionStatementCount w]"
    by blast
  from rt assms(1) resolveTeam_Some_Inr [of db "userId opts" tid team pre] obtain t where
      t: "team = Some t" "teamFindFirstOrThrow db tid (userId opts) = Inr t" "team_id t = tid"
         "pre = [TeamFindFirstOrThrow tid (userId opts)]"
    by auto
  let ?own = "\<lambda>r. (case teamEmail t of
                     Some e \<Rightarrow> ds_teamId r = Some tid \<or> ds_userEmail r = e
                   | None \<Rightarrow> ds_teamId r = Some tid)"
  have iff: "matches (lower db) r (Filter (Some t) (userId opts)) \<longleftrightarrow> ?own r" for r
    by (simp add: matches_Filter_Some t(3) split: option.splits)
  have tenant: "matches (lower db) r (Filter (Some t) (userId opts))" if "matches (lower db) r w" for r
    using that matches_whereClause [OF w, of "lower db" r] by (simp add: t(1))
  have rows: "?own r" if "r \<in> set (data res)" for r
  proof -
    from that have "matches (lower db) r w" using set_findMany [of db w skip tk ob] by (auto simp: d)
    then show ?thesis using tenant iff by blast
  qed
  show ?thesis
    using t(2,3) c t(4) tenant iff rows by auto
qed

text \<open>
  User 7 in team 3, which has the shared inbox \<open>team@x.io\<close>: the row of the team and the
  row owned by the inbox's user are returned. User 8 in team 4, which has no shared inbox:
  only the row of the team is returned.
\<close>

lemma teamRequest_run:
  "fst (findDistribution exampleClock exampleDb (personalRequest\<lparr>teamId := Some 3\<rparr>)) =
     Inr \<lparr> data = [statementB, statementC], count = 2, currentPage = 1, res_perPage = 10,
           totalPages = Num 1 \<rparr>"
  by (simp add: model_defs example_defs mathCeil_jsDivide_pos)

lemma plainTeamRequest_run:
  "fst (findDistribution exampleClock exampleDb (personalRequest\<lparr>userId := 8, teamId := Some 4\<rparr>)) =
     Inr \<lparr> data = [statementE], count = 1, currentPage = 1, res_perPage = 10,
           totalPages = Num 1 \<rparr>"
  by (simp add: model_defs example_defs mathCeil_jsDivide_pos)

theorem team_scope_witness:
  "fst (findDistribution exampleClock exampleDb (personalRequest\<lparr>teamId := Some 3\<rparr>)) =
     Inr \<lparr> data = [statementB, statementC], count = 2, currentPage = 1, res_perPage = 10,
           totalPages = Num 1 \<rparr>
   \<and> ds_teamId statementB = Some 3
   \<and> ds_userEmail statementC = ''team@x.io'' \<and> ds_teamId statementC = None
   \<and> fst (findDistribution exampleClock exampleDb (personalRequest\<lparr>userId := 8, teamId := Some 4\<rparr>)) =
     Inr \<lparr> data = [statementE], count = 1, currentPage = 1, res_perPage = 10,
           totalPages = Num 1 \<rparr>
   \<and> ds_teamId statementE = Some 4"
proof -
  have t3: "teamId (personalRequest\<lparr>teamId := Some 3\<rparr>) = Some 3"
    and t4: "teamId (personalRequest\<lparr>userId := 8, teamId := Some 4\<rparr>) = Some 4"
    by simp_all
  have f3: "teamFindFirstOrThrow exampleDb 3 7 =
              Inr \<lparr> team_id = 3, teamEmail = Some ''team@x.io'', members = [(7, ''ADMIN'')] \<rparr>"
    and f4: "teamFindFirstOrThrow exampleDb 4 8 =
              Inr \<lparr> team_id = 4, teamEmail = None, members = [(8, ''MEMBER'')] \<rparr>"
    by (simp_all add: teamFindFirstOrThrow_def exampleDb_def)
  from team_scope [OF t3 teamRequest_run] f3
  have "(ds_teamId statementB = Some 3 \<or> ds_userEmail statementB = ''team@x.io'')
      \<and> (ds_teamId statementC = Some 3 \<or> ds_userEmail statementC = ''team@x.io'')"
    by (auto simp: personalRequest_def)
  moreover from team_scope [OF t4 plainTeamRequest_run] f4
  have "ds_teamId statementE = Some 4"
    by (auto simp: personalRequest_def)
  ultimately show ?thesis
    using teamRequest_run plainTeamRequest_run
    by (simp add: statementB_def statementC_def)
qed

text \<open>
  Claim C3. When the requesting user is a member of no team with the requested id, the call
  fails with the not-found error, the team lookup is the only request sent to the storage,
  and nothing is returned.
\<close>

theorem non_member_fails:
  assumes "teamId opts = Some tid"
      and "\<forall>t \<in> set (teams db). team_id t = tid \<longrightarrow> userId opts \<notin> fst ` set (members t)"
  shows "findDistribution clk db opts =
           (Inl NotFoundError, [TeamFindFirstOrThrow tid (userId opts)])"
proof -
  have "find (\<lambda>t. team_id t = tid \<and> list_ex (\<lambda>m. fst m = userId opts) (members t)) (teams db) = None"
    using assms(2) by (simp add: find_None_iff member_iff)
  then have "teamFindFirstOrThrow db tid (userId opts) = Inl NotFoundError"
    by (simp add: teamFindFirstOrThrow_def)
  then show ?thesis
    by (simp add: findDistribution_def resolveTeam_def assms(1))
qed

theorem non_member_fails_witness:
  "teamId (personalRequest\<lparr>teamId := Some 4\<rparr>) = Some 4
   \<and> userId (personalRequest\<lparr>teamId := Some 4\<rparr>) = 7
   \<and> map (\<lambda>t. (team_id t, map fst (members t))) (teams exampleDb) = [(3, [7]), (4, [8])]
   \<and> findDistribution exampleClock exampleDb (personalRequest\<lparr>teamId := Some 4\<rparr>) =
       (Inl NotFoundError, [TeamFindFirstOrThrow 4 7])"
proof -
  have t: "teamId (personalRequest\<lparr>teamId := Some 4\<rparr>) = Some 4"
    by simp
  have m: "\<forall>t \<in> set (teams exampleDb). team_id t = 4 \<longrightarrow>
             userId (personalRequest\<lparr>teamId := Some 4\<rparr>) \<notin> fst ` set (members t)"
    by (simp add: exampleDb_def personalRequest_def)
  from non_member_fails [OF t m, of exampleClock] t show ?thesis
    by (simp add: personalRequest_def exampleDb_def)
qed

section \<open>The period\<close>

lemma periodKey_parsed:
  assumes "p \<noteq> []" and "parseInt (stripTrailingD p) = Some d"
      and "startOfPeriod clk (Some d) = Inr b"
  shows "periodKey clk (Some p) = Inr [CreatedAtGte b]"
  using assms by (simp add: periodKey_def)

lemma parseInt_enum:
  "parseInt (stripTrailingD (ascii ''7d'')) = Some 7"
  "parseInt (stripTrailingD (ascii ''14d'')) = Some 14"
  "parseInt (stripTrailingD (ascii ''30d'')) = Some 30"
  by (simp_all add: parseInt_def stripTrailingD_def isDigit_def isSpace_def ascii_def)

text \<open>
  Claim C4, as stated, fails: the period \<open>90d\<close> is outside the enumeration, yet the call
  succeeds, reads it as ninety days, and issues the query and the count.
\<close>

theorem period_90d_counterexample:
  "ascii ''90d'' \<notin> set [ascii '''', ascii ''7d'', ascii ''14d'', ascii ''30d'']
   \<and> findDistribution exampleClock exampleDb (personalRequest\<lparr>period := Some (ascii ''90d'')\<rparr>) =
       (Inr \<lparr> data = [statementA], count = 1, currentPage = 1, res_perPage = 10,
              totalPages = Num 1 \<rparr>,
        [DistributionStatementFindMany
           (WhereInput [AND (whereAndClause None personalRequest), CreatedAtGte 1692144000000])
           0 10 (''id'', asc),
         DistributionStatementCount
           (WhereInput [AND (whereAndClause None personalRequest), CreatedAtGte 1692144000000])])"
  by (simp add: model_defs example_defs mathCeil_jsDivide_pos)

text \<open>
  Claim C4, amended. The enumeration is the static type of \<open>period\<close> only; the call does
  not validate it. For a non-empty period, once the team lookup, if any, has succeeded:
  when \<open>parseInt\<close> reads no number from its text (one trailing \<open>d\<close> removed), the call fails
  with the date library's error and no request for statements is made; when it reads the
  number \<open>d\<close> and the start of the day \<open>d\<close> days before the call is a date the storage
  layer reads (one of the years 1 to 9999), the call succeeds and issues the query and the
  count with that instant as the lower bound on \<open>createdAt\<close>.
\<close>

theorem period_not_validated:
  assumes "period opts = Some p" and "p \<noteq> []"
      and "resolveTeam db (userId opts) (teamId opts) = (Inr team, pre)"
  shows "(parseInt (stripTrailingD p) = None \<longrightarrow>
            findDistribution clk db opts = (Inl InvalidArgumentError, pre))
       \<and> (\<forall>d b. parseInt (stripTrailingD p) = Some d \<and> startOfPeriod clk (Some d) = Inr b \<longrightarrow>
            (\<exists>res w skip tk ob.
               findDistribution clk db opts =
                 (Inr res, pre @ [DistributionStatementFindMany w skip tk ob,
                                  DistributionStatementCount w])
             \<and> (\<forall>r. matches (lower db) r w \<longrightarrow> b \<le> createdAt r)
             \<and> (\<forall>r \<in> set (data res). b \<le> createdAt r)))"
proof (intro conjI impI allI)
  assume "parseInt (stripTrailingD p) = None"
  then have "whereClause clk team opts = Inl InvalidArgumentError"
    by (simp add: whereClause_def periodKey_def startOfPeriod_def assms(1,2))
  then show "findDistribution clk db opts = (Inl InvalidArgumentError, pre)"
    by (simp add: findDistribution_def Let_def assms(3))
next
  fix d b
  assume "parseInt (stripTrailingD p) = Some d \<and> startOfPeriod clk (Some d) = Inr b"
  then have pk: "periodKey clk (period opts) = Inr [CreatedAtGte b]"
    using periodKey_parsed [OF assms(2), of d clk b] by (simp add: assms(1))
  then obtain w where w: "whereClause clk team opts = Inr w"
    by (simp add: whereClause_def)
  from findDistribution_success [OF assms(3) w] obtain res skip tk ob where
      run: "findDistribution clk db opts =
              (Inr res, pre @ [DistributionStatementFindMany w skip tk ob,
                               DistributionStatementCount w])"
    and d: "data res = findMany db w skip tk ob"
    by blast
  have bound: "b \<le> createdAt r" if "matches (lower db) r w" for r
    using that matches_whereClause [OF w, of "lower db" r] pk by simp
  have "b \<le> createdAt r" if "r \<in> set (data res)" for r
    using that set_findMany [of db w skip tk ob] bound by (auto simp: d)
  then show "\<exists>res w skip tk ob.
               findDistribution clk db opts =
                 (Inr res, pre @ [DistributionStatementFindMany w skip tk ob,
                                  DistributionStatementCount w])
             \<and> (\<forall>r. matches (lower db) r w \<longrightarrow> b \<le> createdAt r)
             \<and> (\<forall>r \<in> set (data res). b \<le> createdAt r)"
    using run bound by blast
qed

text \<open>
  On the example database: \<open>abc\<close> holds no number and the call fails before any request;
  \<open>90d\<close> is read as 90, the bound is 2023-08-16T00:00:00Z.
\<close>

theorem period_not_validated_witness:
  "parseInt (stripTrailingD (ascii ''abc'')) = None
   \<and> findDistribution exampleClock exampleDb (personalRequest\<lparr>period := Some (ascii ''abc'')\<rparr>) =
       (Inl InvalidArgumentError, [])
   \<and> parseInt (stripTrailingD (ascii ''90d'')) = Some 90
   \<and> startOfPeriod exampleClock (Some 90) = Inr 1692144000000
   \<and> (\<exists>res w skip tk ob.
         findDistribution exampleClock exampleDb (personalRequest\<lparr>period := Some (ascii ''90d'')\<rparr>) =
           (Inr res, [DistributionStatementFindMany w skip tk ob, DistributionStatementCount w])
       \<and> (\<forall>r \<in> set (data res). 1692144000000 \<le> createdAt r))"
proof -
  have n: "ascii ''abc'' \<noteq> []" "ascii ''90d'' \<noteq> []"
    by (simp_all add: ascii_def)
  have t: "resolveTeam exampleDb (userId (personalRequest\<lparr>period := Some p\<rparr>))
             (teamId (personalRequest\<lparr>period := Some p\<rparr>)) = (Inr None, [])" for p
    by (simp add: resolveTeam_def personalRequest_def)
  have a: "parseInt (stripTrailingD (ascii ''abc'')) = None"
    by (simp add: parseInt_def stripTrailingD_def isDigit_def isSpace_def ascii_def)
  have i: "parseInt (stripTrailingD (ascii ''90d'')) = Some 90"
    by (simp add: parseInt_def stripTrailingD_def isDigit_def isSpace_def ascii_def)
  have s: "startOfPeriod exampleClock (Some 90) = Inr 1692144000000"
    by (simp add: model_defs exampleClock_def)
  from period_not_validated [OF _ n(1) t, of "ascii ''abc''" exampleClock] a
  have "findDistribution exampleClock exampleDb (personalRequest\<lparr>period := Some (ascii ''abc'')\<rparr>) =
       (Inl InvalidArgumentError, [])"
    by simp
  moreover from period_not_validated [OF _ n(2) t, of "ascii ''90d''" exampleClock] i s
  have "\<exists>res w skip tk ob.
         findDistribution exampleClock exampleDb (personalRequest\<lparr>period := Some (ascii ''90d'')\<rparr>) =
           (Inr res, [DistributionStatementFindMany w skip tk ob, DistributionStatementCount w])
       \<and> (\<forall>r \<in> set (data res). 1692144000000 \<le> createdAt r)"
    by auto
  ultimately show ?thesis
    using a i s by simp
qed

section \<open>Count and pages\<close>

lemma whereClause_paging:
  "whereClause clk team (opts\<lparr>page := p, perPage := n\<rparr>) = whereClause clk team opts"
  by (simp add: whereClause_def whereAndClause_def split: sum.splits)

text \<open>
  Claim C5. A successful call issues the query and the count with one and the same filter;
  the returned count is the number of all stored rows that filter accepts; the same call
  with any other \<open>page\<close> and \<open>perPage\<close> issues the same filter and returns the same count;
  and \<open>totalPages\<close> is the ceiling of count / perPage, which for a \<open>perPage\<close> of zero is
  what the division of the host language gives, \<open>Infinity\<close> or \<open>NaN\<close>.
\<close>

theorem count_and_totalPages:
  assumes "fst (findDistribution clk db opts) = Inr res"
  shows "\<exists>w skip tk ob pre.
           snd (findDistribution clk db opts) =
             pre @ [DistributionStatementFindMany w skip tk ob, DistributionStatementCount w]
         \<and> data res = findMany db w skip tk ob
         \<and> count res = length (filter (\<lambda>r. matches (lower db) r w) (distributionStatements db))
         \<and> (\<forall>p n. \<exists>res' skip' tk' ob'.
                findDistribution clk db (opts\<lparr>page := p, perPage := n\<rparr>) =
                  (Inr res', pre @ [DistributionStatementFindMany w skip' tk' ob',
                                    DistributionStatementCount w])
              \<and> count res' = count res)
         \<and> totalPages res =
             (let pp = (case perPage opts of None \<Rightarrow> 10 | Some n \<Rightarrow> n)
              in if pp = 0 then (if count res = 0 then NaN else Infinity)
                 else Num (of_int \<lceil>rat_of_nat (count res) / rat_of_nat pp\<rceil>))"
proof -
  from findDistribution_Inr [OF assms] obtain team w pre skip tk ob where
      rt: "resolveTeam db (userId opts) (teamId opts) = (Inr team, pre)"
    and w: "whereClause clk team opts = Inr w"
    and d: "data res = findMany db w skip tk ob"
    and n: "count res = countRows db w"
    and tp: "totalPages res =
               mathCeil (jsDivide (countRows db w) (case perPage opts of None \<Rightarrow> 10 | Some n \<Rightarrow> n))"
    and c: "snd (findDistribution clk db opts) =
              pre @ [DistributionStatementFindMany w skip tk ob, DistributionStatementCount w]"
    by blast
  have paging: "\<exists>res' skip' tk' ob'.
                findDistribution clk db (opts\<lparr>page := p, perPage := n\<rparr>) =
                  (Inr res', pre @ [DistributionStatementFindMany w skip' tk' ob',
                                    DistributionStatementCount w])
              \<and> count res' = count res" for p n
  proof -
    have "resolveTeam db (userId (opts\<lparr>page := p, perPage := n\<rparr>))
            (teamId (opts\<lparr>page := p, perPage := n\<rparr>)) = (Inr team, pre)"
      using rt by simp
    moreover have "whereClause clk team (opts\<lparr>page := p, perPage := n\<rparr>) = Inr w"
      using w by (simp add: whereClause_paging)
    ultimately show ?thesis
      using findDistribution_success [of db "opts\<lparr>page := p, perPage := n\<rparr>" team pre clk w]
      by (auto simp: n)
  qed
  have "totalPages res =
             (let pp = (case perPage opts of None \<Rightarrow> 10 | Some n \<Rightarrow> n)
              in if pp = 0 then (if count res = 0 then NaN else Infinity)
                 else Num (of_int \<lceil>rat_of_nat (count res) / rat_of_nat pp\<rceil>))"
    unfolding tp n mathCeil_jsDivide Let_def ..
  with c d n paging show ?thesis
    unfolding countRows_def by blast
qed

text \<open>Two matching rows in pages of one: the second page holds the second row.\<close>

lemma pagedRequest_run:
  "fst (findDistribution exampleClock exampleDb
          (personalRequest\<lparr>page := Some 2, perPage := Some 1\<rparr>)) =
     Inr \<lparr> data = [statementD], count = 2, currentPage = 2, res_perPage = 1,
           totalPages = Num 2 \<rparr>"
  by (simp add: model_defs example_defs mathCeil_jsDivide_pos)

theorem count_and_totalPages_witness:
  "fst (findDistribution exampleClock exampleDb
          (personalRequest\<lparr>page := Some 2, perPage := Some 1\<rparr>)) =
     Inr \<lparr> data = [statementD], count = 2, currentPage = 2, res_perPage = 1,
           totalPages = Num 2 \<rparr>
   \<and> (\<exists>res'. fst (findDistribution exampleClock exampleDb
                    (personalRequest\<lparr>page := Some 7, perPage := Some 10\<rparr>)) = Inr res'
            \<and> count res' = 2)
   \<and> Num (of_int \<lceil>rat_of_nat 2 / rat_of_nat 1\<rceil>) = Num 2"
proof -
  from count_and_totalPages [OF pagedRequest_run] obtain w pre where
    "\<forall>p n. \<exists>res' skip' tk' ob'.
        findDistribution exampleClock exampleDb
          (personalRequest\<lparr>page := Some 2, perPage := Some 1\<rparr>\<lparr>page := p, perPage := n\<rparr>) =
          (Inr res', pre @ [DistributionStatementFindMany w skip' tk' ob',
                            DistributionStatementCount w])
      \<and> count res' = 2"
    by auto
  then have "\<exists>res' skip' tk' ob'.
        findDistribution exampleClock exampleDb
          (personalRequest\<lparr>page := Some 2, perPage := Some 1\<rparr>\<lparr>page := Some 7, perPage := Some 10\<rparr>) =
          (Inr res', pre @ [DistributionStatementFindMany w skip' tk' ob',
                            DistributionStatementCount w])
      \<and> count res' = 2"
    by blast
  then obtain res' calls where
    "findDistribution exampleClock exampleDb (personalRequest\<lparr>page := Some 7, perPage := Some 10\<rparr>) =
       (Inr res', calls)" and "count res' = 2"
    by auto
  then have "\<exists>res'. fst (findDistribution exampleClock exampleDb
                    (personalRequest\<lparr>page := Some 7, perPage := Some 10\<rparr>)) = Inr res'
                \<and> count res' = 2"
    by simp
  then show ?thesis
    using pagedRequest_run by simp
qed

section \<open>Free-text search\<close>

text \<open>
  Claim C6, as stated, fails: the query is placed in the pattern of the storage's \<open>ILIKE\<close>
  as it is. The query \<open>_\<close> stands for any one character, so a row is accepted, and
  returned, none of whose fields contains an underscore.
\<close>

theorem wildcard_query_counterexample:
  "matches (lower exampleDb) statementA (searchFilter (Some (ascii ''_'')))
   \<and> map (\<lambda>c. column c statementA) searchedColumns =
       [Some (ascii ''Verano''), Some (ascii ''ISRC-123''), None, None, None, None, None]
   \<and> \<not> sublist (lower exampleDb (ascii ''_'')) (lower exampleDb (ascii ''Verano''))
   \<and> \<not> sublist (lower exampleDb (ascii ''_'')) (lower exampleDb (ascii ''ISRC-123''))
   \<and> fst (findDistribution exampleClock exampleDb (personalRequest\<lparr>query := Some (ascii ''_'')\<rparr>)) =
       Inr \<lparr> data = [statementA, statementD], count = 2, currentPage = 1, res_perPage = 10,
             totalPages = Num 1 \<rparr>"
  by (simp add: model_defs example_defs mathCeil_jsDivide_pos searchedColumns_def sublist_code(3))

text \<open>
  Claim C6, amended. With a query \<open>q\<close>, the search filter accepts a row exactly when one of
  the seven searched fields is present and matches the pattern \<open>%q%\<close> under the storage's
  \<open>ILIKE\<close>, pattern and field folded by the \<open>lower\<close> of the database. When the folded
  query has none of the characters \<open>%\<close>, \<open>_\<close> and backslash (and folding leaves the two
  \<open>%\<close> around it in place), that is exactly when one of the seven fields contains the
  folded query as a substring of the folded field. Every row a call with the query returns is accepted by the
  search filter.
\<close>

theorem search_seven_fields:
  "(matches (lower db) r (searchFilter (Some q)) \<longleftrightarrow>
      (\<exists>c \<in> set searchedColumns. \<exists>v. column c r = Some v
          \<and> likeMatch (lower db (37 # q @ [37])) (lower db v)))
   \<and> (lower db (37 # q @ [37]) = 37 # lower db q @ [37] \<and> wildcardFree (lower db q) \<longrightarrow>
        (matches (lower db) r (searchFilter (Some q)) \<longleftrightarrow>
           (\<exists>c \<in> set searchedColumns. \<exists>v. column c r = Some v
               \<and> sublist (lower db q) (lower db v))))
   \<and> (query opts = Some q \<and> fst (findDistribution clk db opts) = Inr res \<longrightarrow>
        (\<forall>x \<in> set (data res). matches (lower db) x (searchFilter (Some q))))"
proof (intro conjI impI)
  show like: "matches (lower db) r (searchFilter (Some q)) \<longleftrightarrow>
      (\<exists>c \<in> set searchedColumns. \<exists>v. column c r = Some v
          \<and> likeMatch (lower db (37 # q @ [37])) (lower db v))"
    by (auto simp: matches_searchFilter list_ex_iff containsInsensitive_def split: option.splits)
  show "matches (lower db) r (searchFilter (Some q)) \<longleftrightarrow>
           (\<exists>c \<in> set searchedColumns. \<exists>v. column c r = Some v
               \<and> sublist (lower db q) (lower db v))"
    if "lower db (37 # q @ [37]) = 37 # lower db q @ [37] \<and> wildcardFree (lower db q)"
  proof -
    from that have "likeMatch (lower db (37 # q @ [37])) (lower db v)
        \<longleftrightarrow> sublist (lower db q) (lower db v)" for v
      using containsInsensitive_substring [of "lower db" q v]
      by (simp add: containsInsensitive_def)
    then show ?thesis
      by (simp only: like)
  qed
  show "\<forall>x \<in> set (data res). matches (lower db) x (searchFilter (Some q))"
    if "query opts = Some q \<and> fst (findDistribution clk db opts) = Inr res"
  proof
    fix x assume x: "x \<in> set (data res)"
    from that have q: "query opts = Some q" and run: "fst (findDistribution clk db opts) = Inr res"
      by simp_all
    from findDistribution_Inr [OF run] obtain team w skip tk ob where
        w: "whereClause clk team opts = Inr w"
      and d: "data res = findMany db w skip tk ob"
      by blast
    from x have "matches (lower db) x w"
      using set_findMany [of db w skip tk ob] by (auto simp: d)
    then show "matches (lower db) x (searchFilter (Some q))"
      using matches_whereClause [OF w, of "lower db" x] by (simp add: q)
  qed
qed

text \<open>
  The query \<open>isrc-123\<close> finds the row whose ISRC code is \<open>ISRC-123\<close>, the letters I, S,
  R, C being folded; the query \<open>isrc-124\<close> of the same length finds nothing.
\<close>

lemma isrcRequest_run:
  "fst (findDistribution exampleClock exampleDb (personalRequest\<lparr>query := Some (ascii ''isrc-123'')\<rparr>)) =
     Inr \<lparr> data = [statementA], count = 1, currentPage = 1, res_perPage = 10,
           totalPages = Num 1 \<rparr>"
  by (simp add: model_defs example_defs mathCeil_jsDivide_pos)

theorem search_seven_fields_witness:
  "lower exampleDb (37 # ascii ''isrc-123'' @ [37]) = 37 # lower exampleDb (ascii ''isrc-123'') @ [37]
   \<and> wildcardFree (lower exampleDb (ascii ''isrc-123''))
   \<and> lower exampleDb (ascii ''ISRC-123'') = ascii ''isrc-123''
   \<and> isrc statementA = Some (ascii ''ISRC-123'')
   \<and> matches (lower exampleDb) statementA (searchFilter (Some (ascii ''isrc-123'')))
   \<and> \<not> matches (lower exampleDb) statementD (searchFilter (Some (ascii ''isrc-123'')))
   \<and> \<not> matches (lower exampleDb) statementA (searchFilter (Some (ascii ''isrc-124'')))
   \<and> fst (findDistribution exampleClock exampleDb (personalRequest\<lparr>query := Some (ascii ''isrc-123'')\<rparr>)) =
     Inr \<lparr> data = [statementA], count = 1, currentPage = 1, res_perPage = 10,
           totalPages = Num 1 \<rparr>"
proof -
  have l: "lower exampleDb (37 # q @ [37]) = 37 # lower exampleDb q @ [37]" for q
    by (simp add: exampleDb_def asciiLower_def)
  have f: "wildcardFree (lower exampleDb (ascii ''isrc-123''))"
    and g: "wildcardFree (lower exampleDb (ascii ''isrc-124''))"
    and m: "lower exampleDb (ascii ''ISRC-123'') = ascii ''isrc-123''"
    by (simp_all add: exampleDb_def asciiLower_def wildcardFree_def ascii_def)
  have a: "matches (lower exampleDb) statementA (searchFilter (Some (ascii ''isrc-123'')))"
    using search_seven_fields [of exampleDb statementA "ascii ''isrc-123''"] l f
    by (simp add: searchedColumns_def statementA_def exampleDb_def asciiLower_def ascii_def)
  have d: "\<not> matches (lower exampleDb) statementD (searchFilter (Some (ascii ''isrc-123'')))"
    using search_seven_fields [of exampleDb statementD "ascii ''isrc-123''"] l f
    by (simp add: searchedColumns_def statementD_def exampleDb_def asciiLower_def ascii_def
        sublist_code(3))
  have e: "\<not> matches (lower exampleDb) statementA (searchFilter (Some (ascii ''isrc-124'')))"
    using search_seven_fields [of exampleDb statementA "ascii ''isrc-124''"] l g
    by (simp add: searchedColumns_def statementA_def exampleDb_def asciiLower_def ascii_def
        sublist_code(3))
  from a d e l f m isrcRequest_run show ?thesis
    by (simp add: statementA_def)
qed

section \<open>Facet filters\<close>

text \<open>
  Claim C7. When \<open>platformIds\<close> is a non-empty list, the filter of the issued query and
  count accepts only rows with at least one platform association whose \<open>platformId\<close> is in
  the list, so every returned row has one and a row without one is left out whatever else
  it satisfies; one association in the list is enough, the others need not be in it. The
  same holds for \<open>territoryIds\<close> and the territory associations.
\<close>

theorem facet_filters_existential:
  assumes "fst (findDistribution clk db opts) = Inr res"
  shows "\<exists>w skip tk ob pre.
           snd (findDistribution clk db opts) =
             pre @ [DistributionStatementFindMany w skip tk ob, DistributionStatementCount w]
         \<and> (\<forall>ps. platformIds opts = Some ps \<and> ps \<noteq> [] \<longrightarrow>
               (\<forall>r. matches (lower db) r w \<longrightarrow>
                  (\<exists>p \<in> set (distributionStatementMusicPlatforms r). p \<in> set ps))
             \<and> (\<forall>r \<in> set (data res).
                  \<exists>p \<in> set (distributionStatementMusicPlatforms r). p \<in> set ps))
         \<and> (\<forall>ts. territoryIds opts = Some ts \<and> ts \<noteq> [] \<longrightarrow>
               (\<forall>r. matches (lower db) r w \<longrightarrow>
                  (\<exists>t \<in> set (distributionStatementTerritories r). t \<in> set ts))
             \<and> (\<forall>r \<in> set (data res).
                  \<exists>t \<in> set (distributionStatementTerritories r). t \<in> set ts))"
proof -
  from findDistribution_Inr [OF assms] obtain team w pre skip tk ob where
      w: "whereClause clk team opts = Inr w"
    and d: "data res = findMany db w skip tk ob"
    and c: "snd (findDistribution clk db opts) =
              pre @ [DistributionStatementFindMany w skip tk ob, DistributionStatementCount w]"
    by blast
  have rows: "matches (lower db) r w" if "r \<in> set (data res)" for r
    using that set_findMany [of db w skip tk ob] by (auto simp: d)
  have plat: "\<exists>p \<in> set (distributionStatementMusicPlatforms r). p \<in> set ps"
    if "platformIds opts = Some ps" "ps \<noteq> []" "matches (lower db) r w" for ps r
    using that matches_whereClause [OF w, of "lower db" r] holds_platformKey [of ps "lower db" r] by simp
  have terr: "\<exists>t \<in> set (distributionStatementTerritories r). t \<in> set ts"
    if "territoryIds opts = Some ts" "ts \<noteq> []" "matches (lower db) r w" for ts r
    using that matches_whereClause [OF w, of "lower db" r] holds_territoryKey [of ts "lower db" r] by simp
  show ?thesis
    using c plat terr rows by blast
qed

text \<open>
  Platform 6 alone: the row on platforms 6 and 5 is returned, the row on platform 5 only is
  not. Territories 2 and 3: the row in territory 2 is returned, the row in territory 1 is not.
\<close>

lemma platformRequest_run:
  "fst (findDistribution exampleClock exampleDb (personalRequest\<lparr>platformIds := Some [6]\<rparr>)) =
     Inr \<lparr> data = [statementD], count = 1, currentPage = 1, res_perPage = 10,
           totalPages = Num 1 \<rparr>"
  by (simp add: model_defs example_defs mathCeil_jsDivide_pos)

lemma territoryRequest_run:
  "fst (findDistribution exampleClock exampleDb (personalRequest\<lparr>territoryIds := Some [2, 3]\<rparr>)) =
     Inr \<lparr> data = [statementA], count = 1, currentPage = 1, res_perPage = 10,
           totalPages = Num 1 \<rparr>"
  by (simp add: model_defs example_defs mathCeil_jsDivide_pos)

theorem facet_filters_existential_witness:
  "fst (findDistribution exampleClock exampleDb (personalRequest\<lparr>platformIds := Some [6]\<rparr>)) =
     Inr \<lparr> data = [statementD], count = 1, currentPage = 1, res_perPage = 10,
           totalPages = Num 1 \<rparr>
   \<and> distributionStatementMusicPlatforms statementD = [6, 5]
   \<and> distributionStatementMusicPlatforms statementA = [5]
   \<and> fst (findDistribution exampleClock exampleDb (personalRequest\<lparr>territoryIds := Some [2, 3]\<rparr>)) =
     Inr \<lparr> data = [statementA], count = 1, currentPage = 1, res_perPage = 10,
           totalPages = Num 1 \<rparr>
   \<and> distributionStatementTerritories statementA = [2]
   \<and> distributionStatementTerritories statementD = [1]"
proof -
  from facet_filters_existential [OF platformRequest_run]
  have "\<exists>p \<in> set (distributionStatementMusicPlatforms statementD). p \<in> set [6]"
    by (auto simp: personalRequest_def)
  moreover from facet_filters_existential [OF territoryRequest_run]
  have "\<exists>t \<in> set (distributionStatementTerritories statementA). t \<in> set [2, 3]"
    by (auto simp: personalRequest_def)
  ultimately show ?thesis
    using platformRequest_run territoryRequest_run
    by (simp add: statementA_def statementD_def)
qed

section \<open>The period of seven days\<close>

text \<open>
  Claim C8. With the period \<open>7d\<close>, once the team lookup, if any, has succeeded, a call made
  between 1970 and the year 9999, in a zone whose offsets stay within a day, succeeds and
  issues the query and the count with one filter that carries the lower bound \<open>b\<close> on
  \<open>createdAt\<close>, computed once from the call time. The filter accepts no row created before
  \<open>b\<close>, so no such row is returned or counted. When the date library finds the wall-clock
  times it aims at, the wall clock of the zone at \<open>b\<close> reads the midnight that begins the
  day seven days before the day of the call.
\<close>

theorem period_7d_lower_bound:
  assumes "period opts = Some (ascii ''7d'')"
      and "resolveTeam db (userId opts) (teamId opts) = (Inr team, pre)"
      and "0 \<le> now clk" and "now clk < firstOfYear10000"
      and "\<forall>t. \<bar>zone clk t\<bar> \<le> 1440"
  shows "\<exists>res w skip tk ob b.
           findDistribution clk db opts =
             (Inr res, pre @ [DistributionStatementFindMany w skip tk ob,
                              DistributionStatementCount w])
         \<and> startOfPeriod clk (Some 7) = Inr b
         \<and> (\<forall>r. matches (lower db) r w \<longrightarrow> b \<le> createdAt r)
         \<and> (\<forall>r \<in> set (data res). b \<le> createdAt r)
         \<and> count res = length (filter (\<lambda>r. matches (lower db) r w) (distributionStatements db))
         \<and> (dayFound clk 7 \<longrightarrow>
              wallClock clk b = (wallClock clk (now clk) div msPerDay - 7) * msPerDay)"
proof -
  from startOfPeriod_accepted [OF assms(3,4,5)]
  obtain b where b: "startOfPeriod clk (Some 7) = Inr b" ..
  have n: "ascii ''7d'' \<noteq> []"
    by (simp add: ascii_def)
  have pk: "periodKey clk (period opts) = Inr [CreatedAtGte b]"
    using periodKey_parsed [OF n parseInt_enum(1) b] by (simp add: assms(1))
  then obtain w where w: "whereClause clk team opts = Inr w"
    by (simp add: whereClause_def)
  from findDistribution_success [OF assms(2) w] obtain res skip tk ob where
      run: "findDistribution clk db opts =
              (Inr res, pre @ [DistributionStatementFindMany w skip tk ob,
                               DistributionStatementCount w])"
    and d: "data res = findMany db w skip tk ob"
    and n: "count res = countRows db w"
    by blast
  have bound: "b \<le> createdAt r" if "matches (lower db) r w" for r
    using that matches_whereClause [OF w, of "lower db" r] pk by simp
  have rows: "b \<le> createdAt r" if "r \<in> set (data res)" for r
    using that set_findMany [of db w skip tk ob] bound by (auto simp: d)
  have wall: "wallClock clk b = (wallClock clk (now clk) div msPerDay - 7) * msPerDay"
    if "dayFound clk 7"
    using startOfPeriod_wallClock [OF b that] .
  from run b bound rows n wall
  have body: "findDistribution clk db opts =
             (Inr res, pre @ [DistributionStatementFindMany w skip tk ob,
                              DistributionStatementCount w])
         \<and> startOfPeriod clk (Some 7) = Inr b
         \<and> (\<forall>r. matches (lower db) r w \<longrightarrow> b \<le> createdAt r)
         \<and> (\<forall>r \<in> set (data res). b \<le> createdAt r)
         \<and> count res = length (filter (\<lambda>r. matches (lower db) r w) (distributionStatements db))
         \<and> (dayFound clk 7 \<longrightarrow>
              wallClock clk b = (wallClock clk (now clk) div msPerDay - 7) * msPerDay)"
    unfolding countRows_def by simp
  show ?thesis
    apply (rule exI [of _ res], rule exI [of _ w], rule exI [of _ skip], rule exI [of _ tk])
    apply (rule exI [of _ ob], rule exI [of _ b])
    by (rule body)
qed

text \<open>
  In New York on 2023-11-08, after the change to winter time: the bound is
  2023-11-01T04:00:00Z, midnight of the first of November in summer time, and the wall
  clock reads midnight there. Of the two rows of user 7, the one created in July is left
  out. At UTC on 2023-11-14 the bound is 2023-11-07T00:00:00Z.
\<close>

lemma newYorkRequest_run:
  "findDistribution newYorkClock exampleDb (personalRequest\<lparr>period := Some (ascii ''7d'')\<rparr>) =
     (Inr \<lparr> data = [statementA], count = 1, currentPage = 1, res_perPage = 10,
            totalPages = Num 1 \<rparr>,
      [DistributionStatementFindMany
         (WhereInput [AND (whereAndClause None personalRequest), CreatedAtGte 1698811200000])
         0 10 (''id'', asc),
       DistributionStatementCount
         (WhereInput [AND (whereAndClause None personalRequest), CreatedAtGte 1698811200000])])"
  by (simp add: model_defs example_defs newYorkClock_def newYork_def mathCeil_jsDivide_pos)

lemma weekRequest_run:
  "findDistribution exampleClock exampleDb (personalRequest\<lparr>period := Some (ascii ''7d'')\<rparr>) =
     (Inr \<lparr> data = [statementA], count = 1, currentPage = 1, res_perPage = 10,
            totalPages = Num 1 \<rparr>,
      [DistributionStatementFindMany
         (WhereInput [AND (whereAndClause None personalRequest), CreatedAtGte 1699315200000])
         0 10 (''id'', asc),
       DistributionStatementCount
         (WhereInput [AND (whereAndClause None personalRequest), CreatedAtGte 1699315200000])])"
  by (simp add: model_defs example_defs mathCeil_jsDivide_pos)

theorem period_7d_lower_bound_witness:
  "startOfPeriod newYorkClock (Some 7) = Inr 1698811200000
   \<and> dayFound newYorkClock 7
   \<and> zone newYorkClock (now newYorkClock) = - 300
   \<and> zone newYorkClock 1698811200000 = - 240
   \<and> wallClock newYorkClock 1698811200000 = 19662 * msPerDay
   \<and> wallClock newYorkClock (now newYorkClock) div msPerDay = 19669
   \<and> fst (findDistribution newYorkClock exampleDb (personalRequest\<lparr>period := Some (ascii ''7d'')\<rparr>)) =
       Inr \<lparr> data = [statementA], count = 1, currentPage = 1, res_perPage = 10,
             totalPages = Num 1 \<rparr>
   \<and> 1698811200000 \<le> createdAt statementA
   \<and> createdAt statementD < 1698811200000
   \<and> startOfPeriod exampleClock (Some 7) = Inr 1699315200000
   \<and> fst (findDistribution exampleClock exampleDb (personalRequest\<lparr>period := Some (ascii ''7d'')\<rparr>)) =
       Inr \<lparr> data = [statementA], count = 1, currentPage = 1, res_perPage = 10,
             totalPages = Num 1 \<rparr>
   \<and> fst (findDistribution exampleClock exampleDb personalRequest) =
       Inr \<lparr> data = [statementA, statementD], count = 2, currentPage = 1, res_perPage = 10,
             totalPages = Num 1 \<rparr>"
proof -
  have p: "period (personalRequest\<lparr>period := Some (ascii ''7d'')\<rparr>) = Some (ascii ''7d'')"
    by simp
  have t: "resolveTeam exampleDb (userId (personalRequest\<lparr>period := Some (ascii ''7d'')\<rparr>))
             (teamId (personalRequest\<lparr>period := Some (ascii ''7d'')\<rparr>)) = (Inr None, [])"
    by (simp add: resolveTeam_def personalRequest_def)
  have c: "0 \<le> now newYorkClock" "now newYorkClock < firstOfYear10000"
    "\<forall>t. \<bar>zone newYorkClock t\<bar> \<le> 1440"
    by (simp_all add: newYorkClock_def newYork_def firstOfYear10000_def)
  have s: "startOfPeriod newYorkClock (Some 7) = Inr 1698811200000"
    by (simp add: model_defs newYorkClock_def newYork_def)
  have f: "dayFound newYorkClock 7"
    by (simp add: dayFound_def wallTimeFound_def model_defs newYorkClock_def newYork_def)
  have z: "zone newYorkClock (now newYorkClock) = - 300" "zone newYorkClock 1698811200000 = - 240"
    "wallClock newYorkClock (now newYorkClock) div msPerDay = 19669"
    by (simp_all add: wallClock_def newYorkClock_def newYork_def msPerMinute_def msPerDay_def)
  have u: "startOfPeriod exampleClock (Some 7) = Inr 1699315200000"
    by (simp add: model_defs exampleClock_def)
  from period_7d_lower_bound [OF p t c] s f z(3) newYorkRequest_run
  have "wallClock newYorkClock 1698811200000 = 19662 * msPerDay
      \<and> 1698811200000 \<le> createdAt statementA"
    by auto
  then show ?thesis
    using s f z u newYorkRequest_run weekRequest_run personalRequest_run
    by (simp add: statementD_def)
qed

section \<open>A page size of zero\<close>

text \<open>
  Claim C9 asks that the division for \<open>totalPages\<close> never sees a zero divisor. The default
  of 10 applies to an absent \<open>perPage\<close> only: with \<open>perPage\<close> given as 0 the call succeeds,
  returns no rows, and \<open>totalPages\<close> is the quotient by zero, \<open>Infinity\<close> when rows match
  and \<open>NaN\<close> when none does.
\<close>

theorem perPage_zero_divides_by_zero:
  "perPage (personalRequest\<lparr>perPage := Some 0\<rparr>) = Some 0
   \<and> fst (findDistribution exampleClock exampleDb (personalRequest\<lparr>perPage := Some 0\<rparr>)) =
       Inr \<lparr> data = [], count = 2, currentPage = 1, res_perPage = 0, totalPages = Infinity \<rparr>
   \<and> fst (findDistribution exampleClock exampleDb
             (personalRequest\<lparr>perPage := Some 0, query := Some (ascii ''zzz'')\<rparr>)) =
       Inr \<lparr> data = [], count = 0, currentPage = 1, res_perPage = 0, totalPages = NaN \<rparr>"
  by (simp add: model_defs example_defs mathCeil_jsDivide)

section \<open>An empty facet list\<close>

text \<open>
  Claim C10. A call with \<open>platformIds\<close> (or \<open>territoryIds\<close>) given as the empty list
  returns what the same call returns without it, and sends the same requests to the storage.
\<close>

theorem empty_facet_is_absent:
  "findDistribution clk db (opts\<lparr>platformIds := Some []\<rparr>) =
     findDistribution clk db (opts\<lparr>platformIds := None\<rparr>)
   \<and> findDistribution clk db (opts\<lparr>territoryIds := Some []\<rparr>) =
     findDistribution clk db (opts\<lparr>territoryIds := None\<rparr>)"
  by (simp add: findDistribution_def whereClause_def whereAndClause_def platformKey_def
      territoryKey_def Let_def split: prod.splits sum.splits)

theorem empty_facet_is_absent_witness:
  "findDistribution exampleClock exampleDb (personalRequest\<lparr>platformIds := Some []\<rparr>) =
     findDistribution exampleClock exampleDb personalRequest
   \<and> findDistribution exampleClock exampleDb (personalRequest\<lparr>territoryIds := Some []\<rparr>) =
     findDistribution exampleClock exampleDb personalRequest
   \<and> fst (findDistribution exampleClock exampleDb (personalRequest\<lparr>platformIds := Some []\<rparr>)) =
       Inr \<lparr> data = [statementA, statementD], count = 2, currentPage = 1, res_perPage = 10,
             totalPages = Num 1 \<rparr>"
proof -
  have "personalRequest\<lparr>platformIds := None\<rparr> = personalRequest"
    and "personalRequest\<lparr>territoryIds := None\<rparr> = personalRequest"
    by (simp_all add: personalRequest_def)
  with empty_facet_is_absent [of exampleClock exampleDb personalRequest] personalRequest_run
  show ?thesis by simp
qed

end
